theory Spec2Isabelle
  imports Complex_Main
begin

section \<open>The FastAPI wiki page and its Python snippets\<close>

text \<open>
  The repository holds one file, \<^verbatim>\<open>wiki/web_development/fast-api.py\<close>: a markdown page
  about the FastAPI framework with six fenced Python fragments and two shell fragments.
  The Python fragments define two classes named \<^verbatim>\<open>Item\<close>, eight \<^verbatim>\<open>async def\<close> functions
  and three module-level variables. Several names are defined more than once, in
  different fragments; each definition is embedded under its source name followed by the
  line of the file on which its \<^verbatim>\<open>class\<close> or \<^verbatim>\<open>def\<close> keyword stands
  (\<^verbatim>\<open>read_item\<close> of line 22 is \<open>read_item_22\<close>).
\<close>

subsection \<open>Python floats\<close>

text \<open>
  A Python \<^verbatim>\<open>float\<close> is an IEEE 754 binary64 number. Every finite one is a whole
  multiple of the smallest positive one, \<^verbatim>\<open>2**-1074\<close>: \<open>Finite s k\<close> is the number of
  magnitude \<open>k\<close> times \<^verbatim>\<open>2**-1074\<close>, negative when \<open>s\<close> holds (so \<open>Finite True 0\<close> is
  \<^verbatim>\<open>-0.0\<close>). \<open>Infinity s\<close> is \<^verbatim>\<open>inf\<close> or, when \<open>s\<close> holds, \<^verbatim>\<open>-inf\<close>, and \<open>NaN\<close> is
  \<^verbatim>\<open>nan\<close>.
\<close>

datatype pyfloat = Finite bool nat | Infinity bool | NaN

text \<open>The number of binary digits of \<open>n\<close>.\<close>

fun bit_length :: "nat \<Rightarrow> nat" where
  "bit_length n = (if n = 0 then 0 else Suc (bit_length (n div 2)))"

declare bit_length.simps [simp del]

text \<open>
  The value \<^verbatim>\<open>1.0\<close> and the first magnitude too large for a float, \<^verbatim>\<open>2**1024\<close>, in
  multiples of \<^verbatim>\<open>2**-1074\<close>.
\<close>

definition one_in_units :: nat where
  "one_in_units = 2 ^ 1074"

definition overflow_in_units :: nat where
  "overflow_in_units = 2 ^ 2098"

text \<open>
  Rounding to 53 significant binary digits, to nearest and on a tie to the even
  neighbour: \<open>k\<close> is cut into a quotient and a remainder at the digit \<open>d\<close> where its
  leading 53 digits end, and the quotient goes up when the remainder is more than half
  of \<open>d\<close>, or exactly half with an odd quotient. A rounded magnitude of \<^verbatim>\<open>2**1024\<close> or more
  is an infinity.
\<close>

definition round_quotient :: "nat \<Rightarrow> nat \<Rightarrow> nat \<Rightarrow> nat" where
  "round_quotient q r d = (if d < 2 * r \<or> (2 * r = d \<and> odd q) then q + 1 else q) * d"

definition round_at :: "nat \<Rightarrow> nat \<Rightarrow> nat" where
  "round_at d k = round_quotient (k div d) (k mod d) d"

definition round_even :: "nat \<Rightarrow> nat" where
  "round_even k = round_at (2 ^ (bit_length k - 53)) k"

definition signed_or_inf :: "bool \<Rightarrow> nat \<Rightarrow> pyfloat" where
  "signed_or_inf s k = (if overflow_in_units \<le> k then Infinity s else Finite s k)"

definition rounded :: "bool \<Rightarrow> nat \<Rightarrow> pyfloat" where
  "rounded s k = signed_or_inf s (round_even k)"

text \<open>
  Float addition: the exact sum, rounded. \<^verbatim>\<open>nan\<close> with anything is \<^verbatim>\<open>nan\<close>, as is
  \<^verbatim>\<open>inf + -inf\<close>; a sum that is exactly zero is \<^verbatim>\<open>0.0\<close>, except that
  \<^verbatim>\<open>-0.0 + -0.0\<close> is \<^verbatim>\<open>-0.0\<close>.
\<close>

fun fadd :: "pyfloat \<Rightarrow> pyfloat \<Rightarrow> pyfloat" where
  "fadd NaN y = NaN"
| "fadd (Infinity s) NaN = NaN"
| "fadd (Finite s k) NaN = NaN"
| "fadd (Infinity s) (Infinity t) = (if s = t then Infinity s else NaN)"
| "fadd (Infinity s) (Finite t k) = Infinity s"
| "fadd (Finite s k) (Infinity t) = Infinity t"
| "fadd (Finite s j) (Finite t k) =
     (if s = t then rounded s (j + k)
      else if j = k then Finite False 0
      else if k < j then rounded s (j - k)
      else rounded t (k - j))"

text \<open>
  Which values of the type are floats: a finite one has at most 53 significant digits
  and is below \<^verbatim>\<open>2**1024\<close>.
\<close>

fun is_double :: "pyfloat \<Rightarrow> bool" where
  "is_double (Finite s k) = (k mod 2 ^ (bit_length k - 53) = 0 \<and> k < overflow_in_units)"
| "is_double (Infinity s) = True"
| "is_double NaN = True"

fun is_zero :: "pyfloat \<Rightarrow> bool" where
  "is_zero (Finite s k) = (k = 0)"
| "is_zero (Infinity s) = False"
| "is_zero NaN = False"

text \<open>\<^verbatim>\<open>x == y\<close> on floats: \<^verbatim>\<open>nan\<close> equals nothing, and \<^verbatim>\<open>0.0 == -0.0\<close>.\<close>

fun float_eq :: "pyfloat \<Rightarrow> pyfloat \<Rightarrow> bool" where
  "float_eq NaN y = False"
| "float_eq (Infinity s) y = (y = Infinity s)"
| "float_eq (Finite s j) (Finite t k) = (j = k \<and> (s = t \<or> j = 0))"
| "float_eq (Finite s j) (Infinity t) = False"
| "float_eq (Finite s j) NaN = False"

text \<open>The float whose value is the integer \<open>n\<close>, for an \<open>n\<close> that is one (\<^verbatim>\<open>10.0\<close> is \<open>double 10\<close>).\<close>

definition double :: "int \<Rightarrow> pyfloat" where
  "double n = Finite (n < 0) (nat \<bar>n\<bar> * one_in_units)"

subsection \<open>Python values\<close>

text \<open>
  The values that flow through the snippets. A Python \<^verbatim>\<open>int\<close> is unbounded
  (\<^typ>\<open>int\<close>). \<open>PExtern\<close> is an object built by the external framework at definition
  time (\<^verbatim>\<open>Depends(get_db)\<close>), named by the expression that builds it; the snippets only
  pass such objects on.
\<close>

datatype pyval =
    PNone
  | PBool bool
  | PInt int
  | PFloat pyfloat
  | PStr string
  | PExtern string

text \<open>A dictionary with string keys, as every handler's dictionary literal builds.\<close>

type_synonym pydict = "string \<rightharpoonup> pyval"

text \<open>
  The exceptions of the model: the \<^verbatim>\<open>TypeError\<close> and \<^verbatim>\<open>OverflowError\<close> of an addition,
  and what a consumer can throw into a suspended generator (\<^verbatim>\<open>GeneratorExit\<close> when it
  closes the generator, or any other exception, named by its message).
\<close>

datatype py_exception = TypeError | OverflowError | GeneratorExit | Exception string

text \<open>Truth value testing: \<^verbatim>\<open>None\<close>, \<^verbatim>\<open>False\<close>, zero and the empty string are false.\<close>

fun truthy :: "pyval \<Rightarrow> bool" where
  "truthy PNone = False"
| "truthy (PBool b) = b"
| "truthy (PInt n) = (n \<noteq> 0)"
| "truthy (PFloat x) = (\<not> is_zero x)"
| "truthy (PStr s) = (s \<noteq> [])"
| "truthy (PExtern _) = True"

text \<open>\<^verbatim>\<open>a or b\<close>: the left operand when it is true, the right operand otherwise.\<close>

definition py_or :: "pyval \<Rightarrow> pyval \<Rightarrow> pyval" where
  "py_or a b = (if truthy a then a else b)"

text \<open>
  An \<^verbatim>\<open>int\<close> as the float operand of an addition: the nearest float, or
  \<^verbatim>\<open>OverflowError\<close> when the integer is too large for one.
\<close>

definition float_of_int :: "int \<Rightarrow> py_exception + pyfloat" where
  "float_of_int n =
     (if overflow_in_units \<le> round_even (nat \<bar>n\<bar> * one_in_units) then Inl OverflowError
      else Inr (Finite (n < 0) (round_even (nat \<bar>n\<bar> * one_in_units))))"

text \<open>
  \<^verbatim>\<open>x + other\<close> for a float \<open>x\<close>: a float operand is added; an int or a bool operand is
  turned into a float and added; any other operand raises \<^verbatim>\<open>TypeError\<close>.
\<close>

fun float_add :: "pyfloat \<Rightarrow> pyval \<Rightarrow> py_exception + pyval" where
  "float_add x (PFloat y) = Inr (PFloat (fadd x y))"
| "float_add x (PInt n) =
     (case float_of_int n of Inl e \<Rightarrow> Inl e | Inr y \<Rightarrow> Inr (PFloat (fadd x y)))"
| "float_add x (PBool b) = Inr (PFloat (fadd x (if b then double 1 else double 0)))"
| "float_add x PNone = Inl TypeError"
| "float_add x (PStr s) = Inl TypeError"
| "float_add x (PExtern s) = Inl TypeError"

text \<open>A parameter with a default value: the argument when the caller supplies one.\<close>

fun arg_or_default :: "pyval option \<Rightarrow> pyval \<Rightarrow> pyval" where
  "arg_or_default None d = d"
| "arg_or_default (Some v) d = v"

subsection \<open>Coroutines and generators\<close>

text \<open>
  Every function of the snippets is declared \<^verbatim>\<open>async def\<close>. Driving the object that a call
  returns either finishes with a value, finishes with an exception, or stops at a
  \<^verbatim>\<open>yield\<close> with a value and waits to be resumed. The consumer resumes a suspended
  generator by asking for the next value or by throwing an exception into it.
\<close>

datatype resume = Next | Throw py_exception

datatype ('y, 'r) coroutine =
    Return 'r
  | Raise py_exception
  | Yield 'y "resume \<Rightarrow> ('y, 'r) coroutine"

subsection \<open>The record classes\<close>

text \<open>
  \<^verbatim>\<open>class Item(BaseModel)\<close> of lines 55-58 and of lines 121-125. A field declared
  \<^verbatim>\<open>= None\<close> holds a value of its type or \<^verbatim>\<open>None\<close>.
\<close>

record Item_55 =
  name :: string
  price :: pyfloat
  is_offer :: "bool option"

record Item_121 =
  name :: string
  description :: "string option"
  price :: pyfloat
  tax :: "pyfloat option"

fun of_opt_str :: "string option \<Rightarrow> pyval" where
  "of_opt_str None = PNone"
| "of_opt_str (Some s) = PStr s"

fun of_opt_float :: "pyfloat option \<Rightarrow> pyval" where
  "of_opt_float None = PNone"
| "of_opt_float (Some x) = PFloat x"

fun of_opt_bool :: "bool option \<Rightarrow> pyval" where
  "of_opt_bool None = PNone"
| "of_opt_bool (Some b) = PBool b"

subsection \<open>The functions\<close>

text \<open>Lines 21-23: \<^verbatim>\<open>async def read_item(item_id: int, q: str = None)\<close>.\<close>

definition read_item_22 :: "pyval \<Rightarrow> pyval option \<Rightarrow> (pyval, pydict) coroutine" where
  "read_item_22 item_id q_arg =
     (let q = arg_or_default q_arg PNone
      in Return [''item_id'' \<mapsto> item_id, ''q'' \<mapsto> q])"

text \<open>Lines 41-43: \<^verbatim>\<open>async def read_item(item_id: int)\<close>.\<close>

definition read_item_42 :: "pyval \<Rightarrow> (pyval, pydict) coroutine" where
  "read_item_42 item_id = Return [''item_id'' \<mapsto> item_id]"

text \<open>Lines 60-62: \<^verbatim>\<open>async def create_item(item: Item)\<close>, on the class of line 55.\<close>

definition create_item_61 :: "Item_55 \<Rightarrow> (pyval, Item_55) coroutine" where
  "create_item_61 item = Return item"

text \<open>
  Lines 74-79: \<^verbatim>\<open>async def get_db()\<close>, an asynchronous generator. It stops at
  \<^verbatim>\<open>yield db\<close> inside a \<^verbatim>\<open>try\<close> block whose \<^verbatim>\<open>finally\<close> clause is \<^verbatim>\<open>pass\<close>: resumed
  normally it runs the clause and ends; resumed with an exception it runs the clause and
  the exception goes on to the consumer.
\<close>

definition get_db_74 :: "(pyval, unit) coroutine" where
  "get_db_74 =
     (let db = PStr ''fake_database_session''
      in Yield db (\<lambda>r. case r of Next \<Rightarrow> Return () | Throw e \<Rightarrow> Raise e))"

text \<open>Lines 81-83: \<^verbatim>\<open>async def read_users(db=Depends(get_db))\<close>.\<close>

definition read_users_82 :: "pyval option \<Rightarrow> (pyval, pydict) coroutine" where
  "read_users_82 db_arg =
     (let db = arg_or_default db_arg (PExtern ''Depends(get_db)'')
      in Return [''db'' \<mapsto> db])"

text \<open>
  Lines 98-100, the \<^verbatim>\<open>def\<close> on line 99:
  \<^verbatim>\<open>async def read_users_me(token: str = Depends(oauth2_scheme))\<close>.
\<close>

definition read_users_me_99 :: "pyval option \<Rightarrow> (pyval, pydict) coroutine" where
  "read_users_me_99 token_arg =
     (let token = arg_or_default token_arg (PExtern ''Depends(oauth2_scheme)'')
      in Return [''token'' \<mapsto> token])"

text \<open>
  Lines 128-133: \<^verbatim>\<open>async def create_item(item: Item)\<close>, on the class of line 121. The
  dictionary holds \<^verbatim>\<open>item.name\<close> and \<^verbatim>\<open>item.price + (item.tax or 0)\<close>.
\<close>

definition create_item_129 :: "Item_121 \<Rightarrow> (pyval, pydict) coroutine" where
  "create_item_129 item =
     (case float_add (price item) (py_or (of_opt_float (tax item)) (PInt 0)) of
        Inl e \<Rightarrow> Raise e
      | Inr price_with_tax \<Rightarrow>
          Return [''name'' \<mapsto> PStr (name item), ''price_with_tax'' \<mapsto> price_with_tax])"

text \<open>Lines 136-138: \<^verbatim>\<open>async def read_item(item_id: int, q: str = None)\<close>.\<close>

definition read_item_137 :: "pyval \<Rightarrow> pyval option \<Rightarrow> (pyval, pydict) coroutine" where
  "read_item_137 item_id q_arg =
     (let q = arg_or_default q_arg PNone
      in Return [''item_id'' \<mapsto> item_id, ''q'' \<mapsto> q])"

subsection \<open>Driving a coroutine\<close>

text \<open>
  What the first step of a coroutine is: a normal return, or a stop at a \<^verbatim>\<open>yield\<close>.
\<close>

fun returns_normally :: "('y, 'r) coroutine \<Rightarrow> bool" where
  "returns_normally (Return r) = True"
| "returns_normally (Raise e) = False"
| "returns_normally (Yield v k) = False"


fun returned :: "('y, 'r) coroutine \<Rightarrow> 'r option" where
  "returned (Return r) = Some r"
| "returned (Raise e) = None"
| "returned (Yield v k) = None"


text \<open>
  A consumer that asks for the next value until the generator ends, as \<^verbatim>\<open>async for\<close>
  does: the values yielded, in order, and how the generator ended.
\<close>

primrec drain :: "('y, 'r) coroutine \<Rightarrow> 'y list \<times> (py_exception + 'r)" where
  "drain (Return r) = ([], Inr r)"
| "drain (Raise e) = ([], Inl e)"
| "drain (Yield v k) = (v # fst (drain (k Next)), snd (drain (k Next)))"

subsection \<open>The definitions of the source file\<close>

text \<open>
  The definitions that the Python fragments of the page make, in the order of the file,
  each with the line of its \<^verbatim>\<open>class\<close> or \<^verbatim>\<open>def\<close> keyword or of its assignment: a class
  with its base class and its annotated fields, an \<^verbatim>\<open>async def\<close> function with its
  parameters, a module-level variable with the class whose call builds
  its value and the keyword arguments of the call (string literals). A field or
  parameter has a name, an annotation if the source gives one, and a default if the
  source gives one.
\<close>

datatype annotation = A_int | A_str | A_float | A_bool | A_Item

datatype default_expr = Default_None | Default_Depends string

datatype parameter = Parameter string "annotation option" "default_expr option"

datatype source_definition =
    Class_def string string "parameter list"
  | Async_def string "parameter list"
  | Variable_def string string "(string \<times> string) list"

definition source_definitions :: "(nat \<times> source_definition) list" where
  "source_definitions =
    [(19, Variable_def ''app'' ''FastAPI'' []),
     (22, Async_def ''read_item''
            [Parameter ''item_id'' (Some A_int) None,
             Parameter ''q'' (Some A_str) (Some Default_None)]),
     (42, Async_def ''read_item'' [Parameter ''item_id'' (Some A_int) None]),
     (55, Class_def ''Item'' ''BaseModel''
            [Parameter ''name'' (Some A_str) None,
             Parameter ''price'' (Some A_float) None,
             Parameter ''is_offer'' (Some A_bool) (Some Default_None)]),
     (61, Async_def ''create_item'' [Parameter ''item'' (Some A_Item) None]),
     (74, Async_def ''get_db'' []),
     (82, Async_def ''read_users''
            [Parameter ''db'' None (Some (Default_Depends ''get_db''))]),
     (96, Variable_def ''oauth2_scheme'' ''OAuth2PasswordBearer'' [(''tokenUrl'', ''token'')]),
     (99, Async_def ''read_users_me''
            [Parameter ''token'' (Some A_str) (Some (Default_Depends ''oauth2_scheme''))]),
     (118, Variable_def ''app'' ''FastAPI'' []),
     (121, Class_def ''Item'' ''BaseModel''
            [Parameter ''name'' (Some A_str) None,
             Parameter ''description'' (Some A_str) (Some Default_None),
             Parameter ''price'' (Some A_float) None,
             Parameter ''tax'' (Some A_float) (Some Default_None)]),
     (129, Async_def ''create_item'' [Parameter ''item'' (Some A_Item) None]),
     (137, Async_def ''read_item''
            [Parameter ''item_id'' (Some A_int) None,
             Parameter ''q'' (Some A_str) (Some Default_None)])]"

fun is_class :: "source_definition \<Rightarrow> bool" where
  "is_class (Class_def n b fs) = True"
| "is_class (Async_def n ps) = False"
| "is_class (Variable_def n c kw) = False"




fun class_fields :: "source_definition \<Rightarrow> parameter list" where
  "class_fields (Class_def n b fs) = fs"
| "class_fields (Async_def n ps) = []"
| "class_fields (Variable_def n c kw) = []"



section \<open>Properties of the float model\<close>


lemma bit_length_0 [simp]: "bit_length 0 = 0"
  by (simp add: bit_length.simps)

lemma bit_length_1 [simp]: "bit_length 1 = 1" "bit_length (Suc 0) = 1"
  by (simp_all add: bit_length.simps)

lemma bit_length_numeral [simp]:
  "bit_length (numeral (Num.Bit0 n)) = bit_length (numeral n) + 1"
  "bit_length (numeral (Num.Bit1 n)) = bit_length (numeral n) + 1"
  by (subst bit_length.simps, simp)+

lemma bit_length_le: "n < 2 ^ m \<Longrightarrow> bit_length n \<le> m"
proof (induction m arbitrary: n)
  case 0
  then show ?case by simp
next
  case (Suc m)
  show ?case
  proof (cases "n = 0")
    case True
    then show ?thesis by simp
  next
    case False
    from Suc.prems have "n div 2 < 2 ^ m" by simp
    then have "bit_length (n div 2) \<le> m" by (rule Suc.IH)
    with False show ?thesis by (subst bit_length.simps) simp
  qed
qed

lemma bit_length_twice: "0 < n \<Longrightarrow> bit_length (2 * n) = Suc (bit_length n)"
  by (subst bit_length.simps) simp

lemma bit_length_shift: "0 < n \<Longrightarrow> bit_length (n * 2 ^ m) = bit_length n + m"
proof (induction m)
  case 0
  then show ?case by simp
next
  case (Suc m)
  then have "bit_length (2 * (n * 2 ^ m)) = Suc (bit_length (n * 2 ^ m))"
    by (intro bit_length_twice) simp
  with Suc show ?case by (simp add: mult.commute mult.left_commute)
qed

lemma round_even_exact:
  assumes "k mod 2 ^ (bit_length k - 53) = 0"
  shows "round_even k = k"
proof -
  from assms have "2 ^ (bit_length k - 53) dvd k"
    by (simp add: mod_eq_0_iff_dvd)
  then have "k div 2 ^ (bit_length k - 53) * 2 ^ (bit_length k - 53) = k"
    by (rule dvd_div_mult_self)
  with assms show ?thesis
    by (simp add: round_even_def round_at_def round_quotient_def)
qed

lemma one_in_units_pos: "0 < one_in_units"
  by (simp add: one_in_units_def)

lemma small_multiple_exact:
  assumes "n < 2 ^ 53"
  shows "(n * one_in_units) mod 2 ^ (bit_length (n * one_in_units) - 53) = 0"
proof (cases "n = 0")
  case True
  then show ?thesis by simp
next
  case False
  define m :: nat where "m = 1074"
  have u: "one_in_units = 2 ^ m" by (simp only: one_in_units_def m_def)
  from False have "bit_length (n * 2 ^ m) = bit_length n + m"
    by (simp only: bit_length_shift)
  moreover from assms have "bit_length n \<le> 53" by (rule bit_length_le)
  ultimately have "bit_length (n * 2 ^ m) - 53 \<le> m" by simp
  then have "(2::nat) ^ (bit_length (n * 2 ^ m) - 53) dvd 2 ^ m"
    by (rule le_imp_power_dvd)
  then have "(2::nat) ^ (bit_length (n * 2 ^ m) - 53) dvd n * 2 ^ m"
    by (rule dvd_mult)
  then show ?thesis by (simp only: u mod_eq_0_iff_dvd)
qed

lemma small_multiple_bound:
  assumes "n < 2 ^ 53"
  shows "n * one_in_units < overflow_in_units"
proof -
  have "n * one_in_units < 2 ^ 53 * one_in_units"
    using assms one_in_units_pos by (rule mult_strict_right_mono)
  also have "\<dots> \<le> overflow_in_units"
    by (simp add: one_in_units_def overflow_in_units_def)
  finally show ?thesis .
qed

lemma is_double_double:
  assumes "\<bar>n\<bar> < 2 ^ 53"
  shows "is_double (double n)"
proof -
  from assms have "nat \<bar>n\<bar> < 2 ^ 53" by (simp add: nat_less_iff)
  then have "nat \<bar>n\<bar> * one_in_units mod 2 ^ (bit_length (nat \<bar>n\<bar> * one_in_units) - 53) = 0"
    and "nat \<bar>n\<bar> * one_in_units < overflow_in_units"
    by (rule small_multiple_exact, rule small_multiple_bound)
  then show ?thesis by (simp only: double_def is_double.simps simp_thms)
qed

lemma fadd_double:
  assumes "0 \<le> a" "0 \<le> b" "a + b < 2 ^ 53"
  shows "fadd (double a) (double b) = double (a + b)"
proof -
  from assms have n: "nat a + nat b < 2 ^ 53" by (simp add: nat_less_iff flip: nat_add_distrib)
  have s: "nat a * one_in_units + nat b * one_in_units = nat (a + b) * one_in_units"
    using assms by (simp add: distrib_right nat_add_distrib)
  have ab: "nat (a + b) = nat a + nat b"
    using assms by (simp add: nat_add_distrib)
  have r: "round_even (nat (a + b) * one_in_units) = nat (a + b) * one_in_units"
    unfolding ab using n by (intro round_even_exact small_multiple_exact)
  have b: "\<not> overflow_in_units \<le> nat (a + b) * one_in_units"
    unfolding ab using small_multiple_bound [OF n] by simp
  from assms have sg: "\<not> a < 0" "\<not> b < 0" "\<not> a + b < 0" "\<bar>a\<bar> = a" "\<bar>b\<bar> = b" "\<bar>a + b\<bar> = a + b"
    by simp_all
  show ?thesis
    by (simp only: double_def fadd.simps sg s r b rounded_def signed_or_inf_def if_True
        if_False simp_thms)
qed

lemma fadd_zero:
  assumes "is_double x" "x \<noteq> NaN"
  shows "float_eq (fadd x (double 0)) x"
proof (cases x)
  case (Finite s k)
  with assms have "round_even k = k" and "\<not> overflow_in_units \<le> k"
    by (simp_all add: round_even_exact)
  with Finite show ?thesis
    by (cases s) (auto simp add: double_def rounded_def signed_or_inf_def)
qed (use assms in \<open>simp_all add: double_def\<close>)

lemma double_is_zero: "is_zero (double n) = (n = 0)"
  using one_in_units_pos by (simp add: double_def)

lemma double_eq_iff: "0 \<le> a \<Longrightarrow> 0 \<le> b \<Longrightarrow> double a = double b \<longleftrightarrow> a = b"
  using one_in_units_pos by (auto simp add: double_def)

lemma float_of_int_0: "float_of_int 0 = Inr (double 0)"
  by (simp add: float_of_int_def double_def round_even_def round_at_def round_quotient_def
      overflow_in_units_def)

lemma fadd_absorbs:
  "fadd (double 10000000000000000) (double 1) = double 10000000000000000"
  by (simp add: double_def one_in_units_def overflow_in_units_def rounded_def signed_or_inf_def
      round_even_def round_at_def round_quotient_def)

section \<open>Properties of the handlers\<close>

lemma create_item_129_eq:
  "create_item_129 item =
     Return [''name'' \<mapsto> PStr (name item),
             ''price_with_tax'' \<mapsto>
                PFloat (fadd (price item)
                         (case tax item of None \<Rightarrow> double 0
                          | Some t \<Rightarrow> if is_zero t then double 0 else t))]"
  by (cases "tax item") (simp_all add: create_item_129_def py_or_def float_of_int_0)

lemma drain_get_db_74: "drain get_db_74 = ([PStr ''fake_database_session''], Inr ())"
  by (simp add: get_db_74_def)


lemma nth_source_definitions:
  "source_definitions ! 3 =
     (55, Class_def ''Item'' ''BaseModel''
            [Parameter ''name'' (Some A_str) None,
             Parameter ''price'' (Some A_float) None,
             Parameter ''is_offer'' (Some A_bool) (Some Default_None)])"
  "source_definitions ! 10 =
     (121, Class_def ''Item'' ''BaseModel''
            [Parameter ''name'' (Some A_str) None,
             Parameter ''description'' (Some A_str) (Some Default_None),
             Parameter ''price'' (Some A_float) None,
             Parameter ''tax'' (Some A_float) (Some Default_None)])"
  by (simp_all add: source_definitions_def)

lemma map_differs_at:
  "m k \<noteq> m' k \<Longrightarrow> m \<noteq> m'"
  by auto

text \<open>
  Claim C8. For every integer \<open>item_id\<close> and every optional string \<open>q\<close>, the handler
  \<^verbatim>\<open>read_item\<close> of \<^verbatim>\<open>GET /items/{item_id}\<close> (lines 21-23 and lines 136-138) returns the
  dictionary with exactly the two keys \<^verbatim>\<open>"item_id"\<close> and \<^verbatim>\<open>"q"\<close>, bound to \<open>item_id\<close> and
  to \<open>q\<close>; when the caller supplies no \<open>q\<close> the key \<^verbatim>\<open>"q"\<close> is still there, bound to
  \<^verbatim>\<open>None\<close>.
\<close>

theorem read_item_returns_item_id_and_q:
  "read_item_137 (PInt item_id) (Some (of_opt_str q)) =
      Return [''item_id'' \<mapsto> PInt item_id, ''q'' \<mapsto> of_opt_str q]
   \<and> read_item_137 (PInt item_id) None =
      Return [''item_id'' \<mapsto> PInt item_id, ''q'' \<mapsto> PNone]
   \<and> read_item_22 (PInt item_id) (Some (of_opt_str q)) =
      Return [''item_id'' \<mapsto> PInt item_id, ''q'' \<mapsto> of_opt_str q]
   \<and> read_item_22 (PInt item_id) None =
      Return [''item_id'' \<mapsto> PInt item_id, ''q'' \<mapsto> PNone]
   \<and> dom [''item_id'' \<mapsto> PInt item_id, ''q'' \<mapsto> of_opt_str q] = {''item_id'', ''q''}
   \<and> [''item_id'' \<mapsto> PInt item_id, ''q'' \<mapsto> PNone] ''q'' = Some PNone"
  by (simp add: read_item_137_def read_item_22_def) auto

text \<open>
  Claim C9, as the source has it. The claim that \<^verbatim>\<open>"price_with_tax"\<close> equals the price
  exactly when the tax is \<^verbatim>\<open>None\<close> or zero fails in float arithmetic. With the price
  \<^verbatim>\<open>1e16\<close> and the tax \<^verbatim>\<open>1.0\<close>, both floats and the tax not zero, the sum rounds back to
  \<^verbatim>\<open>1e16\<close>: the entry equals the price although there is a tax. With the price \<^verbatim>\<open>nan\<close>
  and no tax the entry is \<^verbatim>\<open>nan\<close>, which does not compare equal to the price.
\<close>

theorem create_item_129_tax_absorbed:
  "create_item_129
      \<lparr>name = ''pen'', description = None, price = double 10000000000000000,
       tax = Some (double 1)\<rparr> =
      Return [''name'' \<mapsto> PStr ''pen'', ''price_with_tax'' \<mapsto> PFloat (double 10000000000000000)]
   \<and> is_double (double 10000000000000000)
   \<and> is_double (double 1)
   \<and> \<not> is_zero (double 1)
   \<and> create_item_129 \<lparr>name = ''pen'', description = None, price = NaN, tax = None\<rparr> =
      Return [''name'' \<mapsto> PStr ''pen'', ''price_with_tax'' \<mapsto> PFloat NaN]
   \<and> \<not> float_eq NaN NaN"
proof -
  have "is_double (double 10000000000000000)"
    by (simp add: double_def one_in_units_def overflow_in_units_def)
  moreover have "is_double (double 1)"
    by (rule is_double_double) simp
  ultimately show ?thesis
    by (simp add: create_item_129_eq double_is_zero fadd_absorbs)
qed

text \<open>
  Claim C9, amended. For every \<open>item\<close> of the class of line 121, \<^verbatim>\<open>create_item\<close> of lines
  128-133 returns a dictionary whose \<^verbatim>\<open>"price_with_tax"\<close> entry is the float sum
  \<open>price + tax\<close> when \<open>tax\<close> is a number other than zero, and the float sum \<open>price + 0\<close>
  when \<open>tax\<close> is \<^verbatim>\<open>None\<close> or zero (\<^verbatim>\<open>item.tax or 0\<close> takes both for false); that sum compares
  equal to \<open>price\<close> whenever \<open>price\<close> is a float other than \<^verbatim>\<open>nan\<close>. The entry \<^verbatim>\<open>"name"\<close> is
  the item's name, and the \<open>description\<close> field has no effect on the result. (The entry can
  equal the price with a tax that is not zero: a float sum is rounded.)
\<close>

theorem create_item_129_price_with_tax:
  "(\<forall>t. tax item = Some t \<and> \<not> is_zero t \<longrightarrow>
        create_item_129 item =
          Return [''name'' \<mapsto> PStr (name item),
                  ''price_with_tax'' \<mapsto> PFloat (fadd (price item) t)])
   \<and> (tax item = None \<or> (\<exists>t. tax item = Some t \<and> is_zero t) \<longrightarrow>
        create_item_129 item =
          Return [''name'' \<mapsto> PStr (name item),
                  ''price_with_tax'' \<mapsto> PFloat (fadd (price item) (double 0))])
   \<and> (is_double (price item) \<and> price item \<noteq> NaN \<longrightarrow>
        float_eq (fadd (price item) (double 0)) (price item))
   \<and> create_item_129 (item\<lparr>description := d\<rparr>) = create_item_129 item"
  by (cases "tax item") (auto simp add: create_item_129_eq fadd_zero)

theorem create_item_129_price_with_tax_witness:
  "create_item_129 \<lparr>name = ''pen'', description = Some ''blue'', price = double 10,
                    tax = Some (double 2)\<rparr> =
      Return [''name'' \<mapsto> PStr ''pen'',
              ''price_with_tax'' \<mapsto> PFloat (fadd (double 10) (double 2))]
   \<and> create_item_129 \<lparr>name = ''pen'', description = None, price = double 10, tax = None\<rparr> =
      Return [''name'' \<mapsto> PStr ''pen'',
              ''price_with_tax'' \<mapsto> PFloat (fadd (double 10) (double 0))]
   \<and> create_item_129 \<lparr>name = ''pen'', description = None, price = double 10,
                       tax = Some (double 0)\<rparr> =
      Return [''name'' \<mapsto> PStr ''pen'',
              ''price_with_tax'' \<mapsto> PFloat (fadd (double 10) (double 0))]
   \<and> float_eq (fadd (double 10) (double 0)) (double 10)"
proof -
  have d: "is_double (double 10)" by (rule is_double_double) simp
  have n: "double 10 \<noteq> NaN" by (simp add: double_def)
  show ?thesis
    using create_item_129_price_with_tax
            [of "\<lparr>name = ''pen'', description = Some ''blue'', price = double 10,
                  tax = Some (double 2)\<rparr>"]
          create_item_129_price_with_tax
            [of "\<lparr>name = ''pen'', description = None, price = double 10, tax = None\<rparr>"]
          create_item_129_price_with_tax
            [of "\<lparr>name = ''pen'', description = None, price = double 10,
                  tax = Some (double 0)\<rparr>"]
          d n
    by (simp add: double_is_zero)
qed

text \<open>
  Claim C10. \<^verbatim>\<open>create_item\<close> of lines 60-62 is the identity on the class of line 55: for
  every item, with a string name, a float price and an optional \<open>is_offer\<close>, it returns its
  argument unchanged.
\<close>

theorem create_item_61_identity: "create_item_61 item = Return item"
  by (simp add: create_item_61_def)





text \<open>
  Claim C7. No function of the snippets validates its data, checks a credential,
  resolves a dependency or routes a request. Every one of the eight accepts every
  argument and none rejects or replaces any: \<^verbatim>\<open>read_item\<close> puts whatever \<open>item_id\<close> it is
  given into its result, an integer or not; \<^verbatim>\<open>create_item\<close> of line 61 returns every item
  as it is, and \<^verbatim>\<open>create_item\<close> of line 129 returns a result for every item;
  \<^verbatim>\<open>read_users_me\<close> returns every token it is given, and \<^verbatim>\<open>read_users\<close> every \<open>db\<close>,
  without looking at it; called with no argument, the two return the framework's
  unresolved \<^verbatim>\<open>Depends\<close> object itself; \<^verbatim>\<open>get_db\<close> hands out a constant string and looks
  nothing up. No function takes a request path or method to route on.
\<close>

theorem handlers_pass_arguments_through:
  "read_item_22 item_id q = Return [''item_id'' \<mapsto> item_id, ''q'' \<mapsto> arg_or_default q PNone]
   \<and> read_item_42 item_id = Return [''item_id'' \<mapsto> item_id]
   \<and> read_item_137 item_id q =
        Return [''item_id'' \<mapsto> item_id, ''q'' \<mapsto> arg_or_default q PNone]
   \<and> read_item_137 (PStr ''abc'') None = Return [''item_id'' \<mapsto> PStr ''abc'', ''q'' \<mapsto> PNone]
   \<and> create_item_61 item55 = Return item55
   \<and> returns_normally (create_item_129 item121)
   \<and> Option.bind (returned (create_item_129 item121)) (\<lambda>d. d ''name'') =
        Some (PStr (name item121))
   \<and> read_users_me_99 (Some token) = Return [''token'' \<mapsto> token]
   \<and> read_users_me_99 None = Return [''token'' \<mapsto> PExtern ''Depends(oauth2_scheme)'']
   \<and> read_users_82 (Some db) = Return [''db'' \<mapsto> db]
   \<and> read_users_82 None = Return [''db'' \<mapsto> PExtern ''Depends(get_db)'']
   \<and> drain get_db_74 = ([PStr ''fake_database_session''], Inr ())"
  by (simp add: read_item_22_def read_item_42_def read_users_82_def read_users_me_99_def
      read_item_137_def create_item_61_def create_item_129_eq drain_get_db_74)

text \<open>
  Claim C2, as the source has it. The claim that no function of the source has an
  input/output behaviour that a scenario test could verify fails: here are three
  scenarios, each a call of a function of the source on a concrete input together with
  the result that the source fixes for it.
\<close>

theorem handler_scenarios:
  "create_item_61
      \<lparr>Item_55.name = ''pen'', Item_55.price = double 3, Item_55.is_offer = Some True\<rparr> =
      Return \<lparr>Item_55.name = ''pen'', Item_55.price = double 3, Item_55.is_offer = Some True\<rparr>
   \<and> read_item_137 (PInt 7) (Some (PStr ''x'')) =
      Return [''item_id'' \<mapsto> PInt 7, ''q'' \<mapsto> PStr ''x'']
   \<and> create_item_129
        \<lparr>name = ''pen'', description = None, price = double 10, tax = Some (double 2)\<rparr> =
      Return [''name'' \<mapsto> PStr ''pen'', ''price_with_tax'' \<mapsto> PFloat (double 12)]"
  using fadd_double [of 10 2]
  by (simp add: create_item_61_def read_item_137_def create_item_129_eq double_is_zero)

text \<open>
  Claim C2, amended. The functions of the source have properties that a test can check.
  Identity: \<^verbatim>\<open>create_item\<close> of line 61 returns the item it is given. Round trip: the
  arguments of \<^verbatim>\<open>read_item\<close>, \<^verbatim>\<open>read_users\<close> and \<^verbatim>\<open>read_users_me\<close> can be read back from
  the dictionary returned. Invariant: every result of \<^verbatim>\<open>create_item\<close> of line 129 has
  exactly the keys \<^verbatim>\<open>"name"\<close> and \<^verbatim>\<open>"price_with_tax"\<close>.
\<close>

theorem handlers_have_testable_properties:
  "returned (create_item_61 item55) = Some item55
   \<and> Option.bind (returned (read_item_22 item_id (Some q))) (\<lambda>d. d ''item_id'') = Some item_id
   \<and> Option.bind (returned (read_item_22 item_id (Some q))) (\<lambda>d. d ''q'') = Some q
   \<and> Option.bind (returned (read_item_42 item_id)) (\<lambda>d. d ''item_id'') = Some item_id
   \<and> Option.bind (returned (read_item_137 item_id (Some q))) (\<lambda>d. d ''item_id'') = Some item_id
   \<and> Option.bind (returned (read_item_137 item_id (Some q))) (\<lambda>d. d ''q'') = Some q
   \<and> Option.bind (returned (read_users_82 (Some db))) (\<lambda>d. d ''db'') = Some db
   \<and> Option.bind (returned (read_users_me_99 (Some token))) (\<lambda>d. d ''token'') = Some token
   \<and> map_option dom (returned (create_item_129 item121)) = Some {''name'', ''price_with_tax''}"
  by (simp add: create_item_61_def read_item_22_def read_item_42_def read_item_137_def
      read_users_82_def read_users_me_99_def create_item_129_eq) auto



text \<open>
  Claim C5, as the source has it. The claim that no record with constrained fields is
  defined or manipulated fails on the class \<^verbatim>\<open>Item\<close> of line 121: each of its four
  fields is declared with a type, and \<^verbatim>\<open>create_item\<close> of line 129 reads the record: a
  different \<open>price\<close> gives a different result.
\<close>

theorem Item_121_is_a_constrained_record:
  "class_fields (snd (source_definitions ! 10)) =
      [Parameter ''name'' (Some A_str) None,
       Parameter ''description'' (Some A_str) (Some Default_None),
       Parameter ''price'' (Some A_float) None,
       Parameter ''tax'' (Some A_float) (Some Default_None)]
   \<and> create_item_129 \<lparr>name = ''pen'', description = None, price = double 10, tax = None\<rparr>
       = Return [''name'' \<mapsto> PStr ''pen'', ''price_with_tax'' \<mapsto> PFloat (double 10)]
   \<and> create_item_129 \<lparr>name = ''pen'', description = None, price = double 11, tax = None\<rparr>
       = Return [''name'' \<mapsto> PStr ''pen'', ''price_with_tax'' \<mapsto> PFloat (double 11)]
   \<and> double 10 \<noteq> double 11"
  using fadd_double [of 10 0] fadd_double [of 11 0]
  by (simp add: nth_source_definitions create_item_129_eq double_eq_iff)

text \<open>
  Claim C5, amended. Two record classes named \<^verbatim>\<open>Item\<close> are defined, each field declared
  with a type (line 55: \<^verbatim>\<open>name: str\<close>, \<^verbatim>\<open>price: float\<close>, \<^verbatim>\<open>is_offer: bool = None\<close>; line
  121: \<^verbatim>\<open>name: str\<close>, \<^verbatim>\<open>description: str = None\<close>, \<^verbatim>\<open>price: float\<close>,
  \<^verbatim>\<open>tax: float = None\<close>), and the records are manipulated: \<^verbatim>\<open>create_item\<close> of line 61
  returns the record it is given, and \<^verbatim>\<open>create_item\<close> of line 129 reads \<open>name\<close>, \<open>price\<close>
  and \<open>tax\<close> (items with different names have different results, and there are items
  that differ in \<open>price\<close> alone, or in \<open>tax\<close> alone, with different results) and never reads
  \<open>description\<close>.
\<close>

theorem Item_records_are_read:
  "map (class_fields \<circ> snd) (filter (is_class \<circ> snd) source_definitions) =
      [[Parameter ''name'' (Some A_str) None,
        Parameter ''price'' (Some A_float) None,
        Parameter ''is_offer'' (Some A_bool) (Some Default_None)],
       [Parameter ''name'' (Some A_str) None,
        Parameter ''description'' (Some A_str) (Some Default_None),
        Parameter ''price'' (Some A_float) None,
        Parameter ''tax'' (Some A_float) (Some Default_None)]]
   \<and> returned (create_item_61 item55) = Some item55
   \<and> (name a \<noteq> name b \<longrightarrow> create_item_129 a \<noteq> create_item_129 b)
   \<and> create_item_129 \<lparr>name = ''pen'', description = None, price = double 10, tax = None\<rparr>
       \<noteq> create_item_129 \<lparr>name = ''pen'', description = None, price = double 11, tax = None\<rparr>
   \<and> create_item_129 \<lparr>name = ''pen'', description = None, price = double 10, tax = None\<rparr>
       \<noteq> create_item_129
            \<lparr>name = ''pen'', description = None, price = double 10, tax = Some (double 2)\<rparr>
   \<and> create_item_129 (item121\<lparr>description := d\<rparr>) = create_item_129 item121"
proof -
  have names: "create_item_129 a \<noteq> create_item_129 b" if "name a \<noteq> name b"
  proof
    assume "create_item_129 a = create_item_129 b"
    then have "returned (create_item_129 a) = returned (create_item_129 b)" by simp
    then have "Option.bind (returned (create_item_129 a)) (\<lambda>d. d ''name'')
        = Option.bind (returned (create_item_129 b)) (\<lambda>d. d ''name'')"
      by simp
    with that show False by (simp add: create_item_129_eq)
  qed
  have prices: "[''name'' \<mapsto> PStr ''pen'', ''price_with_tax'' \<mapsto> PFloat (double 10)]
      \<noteq> [''name'' \<mapsto> PStr ''pen'', ''price_with_tax'' \<mapsto> PFloat (double 11)]"
    by (rule map_differs_at [of _ "''price_with_tax''"]) (simp add: double_eq_iff)
  have taxes: "[''name'' \<mapsto> PStr ''pen'', ''price_with_tax'' \<mapsto> PFloat (double 10)]
      \<noteq> [''name'' \<mapsto> PStr ''pen'', ''price_with_tax'' \<mapsto> PFloat (double 12)]"
    by (rule map_differs_at [of _ "''price_with_tax''"]) (simp add: double_eq_iff)
  show ?thesis
    using names prices taxes fadd_double [of 10 0] fadd_double [of 11 0] fadd_double [of 10 2]
    by (cases "tax item121")
       (simp_all add: source_definitions_def create_item_61_def create_item_129_eq
          double_is_zero)
qed

theorem Item_records_are_read_witness:
  "create_item_129 \<lparr>name = ''pen'', description = None, price = double 10, tax = None\<rparr>
     \<noteq> create_item_129 \<lparr>name = ''ink'', description = None, price = double 10, tax = None\<rparr>"
  using Item_records_are_read
          [where a = "\<lparr>name = ''pen'', description = None, price = double 10, tax = None\<rparr>"
             and b = "\<lparr>name = ''ink'', description = None, price = double 10, tax = None\<rparr>"]
  by simp

end
